theory Spec2Isabelle
  imports Main "HOL-Library.Word"
begin

section \<open>The useTranslator hook (src/frontend/src/hooks/useTranslator.ts)\<close>

text \<open>
  The hook is a React function component body: every piece of \<open>useState\<close> state and every
  \<open>useRef\<close> cell is a field of one record, each handler of the hook is a function from the
  record to the updated record, and every suspension point (\<open>await\<close>, \<open>setTimeout\<close>, a
  browser callback) splits a source function into the part that runs before it and the
  continuation that runs when the environment answers. The continuation receives the local
  variables the JavaScript closure captured and the hook state as it is at that moment.
\<close>

subsection \<open>JavaScript strings\<close>

text \<open>
  A JavaScript string is a sequence of UTF-16 code units and \<open>.length\<close> counts them, so a
  string is a list of 16-bit words. Literals of the source outside ASCII are written as their
  code units.
\<close>

type_synonym jsstring = "16 word list"

definition ascii :: "string \<Rightarrow> jsstring" where
  "ascii s = map of_char s"

text \<open>\<open>String.prototype.trim\<close>: strips WhiteSpace and LineTerminator code units at both ends.\<close>

definition is_ws :: "16 word \<Rightarrow> bool" where
  "is_ws c \<longleftrightarrow> c \<in> set [0x0009, 0x000A, 0x000B, 0x000C, 0x000D, 0x0020, 0x00A0, 0x1680,
      0x2000, 0x2001, 0x2002, 0x2003, 0x2004, 0x2005, 0x2006, 0x2007, 0x2008, 0x2009, 0x200A,
      0x2028, 0x2029, 0x202F, 0x205F, 0x3000, 0xFEFF]"

definition trim :: "jsstring \<Rightarrow> jsstring" where
  "trim s = rev (dropWhile is_ws (rev (dropWhile is_ws s)))"

text \<open>
  \<open>v || d\<close> on a field typed \<open>string\<close> that may be absent: an absent field (\<open>undefined\<close>)
  and the empty string are falsy, every other string is truthy.
\<close>

definition js_or :: "jsstring option \<Rightarrow> jsstring \<Rightarrow> jsstring" where
  "js_or v d = (case v of None \<Rightarrow> d | Some s \<Rightarrow> if s = [] then d else s)"

text \<open>
  Decimal rendering of a non-negative integer inside a template literal. It renders
  \<open>delay/1000\<close>, which is a whole number for every delay of the reconnect schedule.
\<close>

fun dec :: "nat \<Rightarrow> jsstring" where
  "dec n = (if n < 10 then [of_nat (48 + n)] else dec (n div 10) @ [of_nat (48 + n mod 10)])"

definition RU :: jsstring where "RU = ascii ''RU''"
definition DE :: jsstring where "DE = ascii ''DE''"
definition ru_RU :: jsstring where "ru_RU = ascii ''ru-RU''"
definition de_DE :: jsstring where "de_DE = ascii ''de-DE''"

subsection \<open>Status texts\<close>

definition cyr_oshibka :: jsstring where
  "cyr_oshibka = [0x041E, 0x0448, 0x0438, 0x0431, 0x043A, 0x0430]"

definition status_ready :: jsstring where
  "status_ready = [0xD83D, 0xDFE2, 0x0020, 0x0413, 0x043E, 0x0442, 0x043E, 0x0432]"

definition status_connected :: jsstring where
  "status_connected = [0xD83D, 0xDFE2, 0x0020, 0x041F, 0x043E, 0x0434, 0x043A, 0x043B, 0x044E,
     0x0447, 0x0435, 0x043D, 0x043E]"

definition status_reconnect :: "nat \<Rightarrow> jsstring" where
  "status_reconnect delay = [0xD83D, 0xDD34, 0x0020, 0x041F, 0x0435, 0x0440, 0x0435, 0x043F,
     0x043E, 0x0434, 0x043A, 0x043B, 0x044E, 0x0447, 0x0435, 0x043D, 0x0438, 0x0435, 0x0020,
     0x0447, 0x0435, 0x0440, 0x0435, 0x0437, 0x0020] @ dec (delay div 1000) @ ascii ''s...''"

definition status_recording :: jsstring where
  "status_recording = [0xD83C, 0xDFA4, 0x0020, 0x0417, 0x0430, 0x043F, 0x0438, 0x0441, 0x044C]
     @ ascii ''...''"

definition status_translating :: jsstring where
  "status_translating = [0xD83D, 0xDD04, 0x0020, 0x041F, 0x0435, 0x0440, 0x0435, 0x0432, 0x043E,
     0x0434] @ ascii ''...''"

text \<open>The language pair as the success status shows it: \<open>${fromLang} \<rightarrow> ${toLang}\<close>.\<close>

definition pair_text :: "jsstring \<Rightarrow> jsstring \<Rightarrow> jsstring" where
  "pair_text fromLang toLang = fromLang @ [0x0020, 0x2192, 0x0020] @ toLang"

definition status_done :: "jsstring \<Rightarrow> jsstring \<Rightarrow> jsstring" where
  "status_done fromLang toLang = [0x2705, 0x0020] @ pair_text fromLang toLang"

definition status_translation_error :: jsstring where
  "status_translation_error = [0x274C, 0x0020] @ cyr_oshibka @
     [0x0020, 0x043F, 0x0435, 0x0440, 0x0435, 0x0432, 0x043E, 0x0434, 0x0430]"

definition error_text :: "jsstring \<Rightarrow> jsstring" where
  "error_text msg = cyr_oshibka @ ascii '': '' @ msg"

definition status_no_microphone :: jsstring where
  "status_no_microphone = [0x274C, 0x0020, 0x041C, 0x0438, 0x043A, 0x0440, 0x043E, 0x0444,
     0x043E, 0x043D, 0x0020, 0x043D, 0x0435, 0x0434, 0x043E, 0x0441, 0x0442, 0x0443, 0x043F,
     0x0435, 0x043D]"

definition status_speech_not_ready :: jsstring where
  "status_speech_not_ready = [0x274C, 0x0020] @ ascii ''Speech recognition '' @
     [0x043D, 0x0435, 0x0020, 0x0433, 0x043E, 0x0442, 0x043E, 0x0432]"

definition status_stopped :: jsstring where
  "status_stopped = [0x23F9, 0xFE0F, 0x0020, 0x041E, 0x0441, 0x0442, 0x0430, 0x043D, 0x043E,
     0x0432, 0x043B, 0x0435, 0x043D, 0x043E]"

definition status_auto_mode :: jsstring where
  "status_auto_mode = [0xD83E, 0xDD16, 0x0020] @ ascii ''Auto '' @
     [0x0440, 0x0435, 0x0436, 0x0438, 0x043C]"

definition status_manual_mode :: jsstring where
  "status_manual_mode = [0xD83C, 0xDFAF, 0x0020] @ ascii ''Manual '' @
     [0x0440, 0x0435, 0x0436, 0x0438, 0x043C]"

subsection \<open>State\<close>

datatype TranslationMode = Manual | Auto

datatype Role = User | Steuerberater

text \<open>
  A recognizer object as \<open>initSpeechRecognition\<close> builds it. Its \<open>onend\<close> handler is a closure
  created inside \<open>initSpeechRecognition\<close>, itself a closure of one render of the hook, and
  \<open>isRecording\<close> is a \<open>const\<close> of that render: the handler reads the value \<open>isRecording\<close> had
  in the render whose \<open>initSpeechRecognition\<close> built the recognizer. That captured value is
  the field \<open>onend_isRecording\<close>. \<open>running\<close> is the recognizer's own started flag.
\<close>

record recognizer =
  lang :: jsstring
  running :: bool
  onend_isRecording :: bool

text \<open>
  \<open>recognizers\<close> and \<open>controllers\<close> are the heaps of recognizer and AbortController objects
  in order of creation; \<open>recognitionRef\<close> and \<open>abortControllerRef\<close> hold an index or \<open>null\<close>.
  \<open>sockets\<close> counts the WebSocket objects constructed and \<open>websocketRef\<close> holds the number
  of the last one.
  A controller is its \<open>signal.aborted\<close> flag. \<open>reconnectTimers\<close> is the heap of the timers
  that \<open>setTimeout\<close> has created for reconnects, in order of creation, each with its delay
  and whether it is still pending; \<open>reconnectTimeoutRef\<close> holds the index of the one
  scheduled last. \<open>debounceTimer\<close> is the timer of the debounce effect, with its
  deadline and the \<open>originalText\<close>, \<open>translationMode\<close> and \<open>currentRole\<close> of the render that
  set it (the values its callback's \<open>performTranslation\<close> closes over). \<open>reconnectAttemptsRef\<close>
  is a JavaScript number that only ever counts up from 0 by one; it is only read through
  \<open>Math.min\<close> with 4. State that none of the handlers below reads (\<open>inputText\<close>,
  \<open>currentMode\<close>, \<open>autoTranslate\<close>, \<open>connectionStatus.ai\<close>) is left out.
\<close>

record hook =
  translationMode :: TranslationMode
  currentRole :: Role
  originalText :: jsstring
  translatedText :: jsstring
  isRecording :: bool
  status :: jsstring
  isTranslating :: bool
  recognitionLang :: jsstring
  connection_ws :: bool
  connection_speech :: bool
  sockets :: nat
  websocketRef :: "nat option"
  recognizers :: "recognizer list"
  recognitionRef :: "nat option"
  controllers :: "bool list"
  abortControllerRef :: "nat option"
  reconnectAttemptsRef :: nat
  reconnectTimers :: "(nat \<times> bool) list"
  reconnectTimeoutRef :: "nat option"
  debounceTimer :: "(nat \<times> jsstring \<times> TranslationMode \<times> Role) option"

text \<open>The state of the first render, before any effect has run.\<close>

definition initial :: hook where
  "initial = \<lparr> translationMode = Auto, currentRole = User, originalText = [],
     translatedText = [], isRecording = False, status = status_ready, isTranslating = False,
     recognitionLang = ru_RU, connection_ws = False, connection_speech = False,
     sockets = 0, websocketRef = None,
     recognizers = [], recognitionRef = None, controllers = [], abortControllerRef = None,
     reconnectAttemptsRef = 0, reconnectTimers = [], reconnectTimeoutRef = None,
     debounceTimer = None \<rparr>"

text \<open>
  The effect on \<open>[recognitionLang]\<close>: after a render in which \<open>recognitionLang\<close> differs from
  the previous render's, the current recognizer's \<open>lang\<close> is set to it.
\<close>

definition lang_effect :: "hook \<Rightarrow> hook \<Rightarrow> hook" where
  "lang_effect prev st =
     (if recognitionLang st = recognitionLang prev then st
      else case recognitionRef st of
             None \<Rightarrow> st
           | Some i \<Rightarrow>
               if i < length (recognizers st)
               then st\<lparr>recognizers := (recognizers st)[i := (recognizers st ! i)\<lparr>lang := recognitionLang st\<rparr>]\<rparr>
               else st)"

subsection \<open>Translation pipeline: detectLanguage and performTranslation\<close>

text \<open>
  What the environment answers to the two fetches. \<open>DetectJson f\<close> is a JSON body whose
  \<open>detected_language\<close> field is \<open>f\<close> (absent or a string, as the \<open>Promise<string>\<close> return type
  has it); \<open>DetectThrows\<close> is a rejected fetch or an unparsable body. Likewise for
  \<open>translated_text\<close>; a rejection carries the error's \<open>name\<close> and \<open>message\<close>.
\<close>

datatype detect_reply = DetectJson "jsstring option" | DetectThrows

datatype js_error = JsError (error_name: jsstring) (error_message: jsstring)

datatype fetch_reply = FetchJson "jsstring option" | FetchThrows js_error

definition detectLanguage :: "detect_reply \<Rightarrow> jsstring" where
  "detectLanguage reply =
     (case reply of DetectJson f \<Rightarrow> js_or f RU | DetectThrows \<Rightarrow> RU)"

text \<open>The body and the abort signal of a \<open>/translate\<close> fetch.\<close>

record translate_call =
  body_text :: jsstring
  source_language :: jsstring
  target_language :: jsstring
  signal :: nat

text \<open>What a running \<open>performTranslation\<close> is suspended on, with its captured locals.\<close>

datatype pending = AwaitDetect jsstring | AwaitTranslate translate_call

definition finally_block :: "hook \<Rightarrow> hook" where
  "finally_block st = st\<lparr>isTranslating := False\<rparr>"

definition catch_block :: "js_error \<Rightarrow> hook \<Rightarrow> hook" where
  "catch_block err st =
     (if error_name err = ascii ''AbortError'' then finally_block st
      else finally_block
             (st\<lparr>status := status_translation_error, translatedText := error_text (error_message err)\<rparr>))"

text \<open>
  The fetch of lines 223-232. Its signal is read from \<open>abortControllerRef.current\<close> at the
  moment the fetch is issued. Reading \<open>.signal\<close> of \<open>null\<close> throws a TypeError into the
  \<open>catch\<close> block (the message is V8's).
\<close>

definition issue_translate :: "jsstring \<Rightarrow> jsstring \<Rightarrow> jsstring \<Rightarrow> hook \<Rightarrow> hook \<times> pending option" where
  "issue_translate txt fromLang toLang st =
     (case abortControllerRef st of
        None \<Rightarrow>
          (catch_block (JsError (ascii ''TypeError'')
             (ascii ''Cannot read properties of null (reading 'signal')'')) st, None)
      | Some i \<Rightarrow>
          (st, Some (AwaitTranslate \<lparr>body_text = txt, source_language = fromLang,
                       target_language = toLang, signal = i\<rparr>)))"

text \<open>
  \<open>performTranslation\<close> up to its first \<open>await\<close>. \<open>mode\<close> and \<open>role\<close> are the
  \<open>translationMode\<close> and \<open>currentRole\<close> of the render whose \<open>performTranslation\<close> is called.
\<close>

definition performTranslation :: "TranslationMode \<Rightarrow> Role \<Rightarrow> jsstring \<Rightarrow> hook \<Rightarrow> hook \<times> pending option" where
  "performTranslation mode role txt st =
     (if trim txt = [] \<or> length txt < 3 then (st, None)
      else
        let st1 = (case abortControllerRef st of
                     None \<Rightarrow> st
                   | Some i \<Rightarrow> st\<lparr>controllers := (controllers st)[i := True]\<rparr>);
            st2 = st1\<lparr>controllers := controllers st1 @ [False],
                      abortControllerRef := Some (length (controllers st1))\<rparr>;
            st3 = st2\<lparr>isTranslating := True, status := status_translating\<rparr>
        in if mode = Auto then (st3, Some (AwaitDetect txt))
           else issue_translate txt (if role = User then RU else DE)
                  (if role = User then DE else RU) st3)"

text \<open>The continuation after \<open>await detectLanguage(text)\<close>, lines 208-232.\<close>

definition detect_done :: "jsstring \<Rightarrow> detect_reply \<Rightarrow> hook \<Rightarrow> hook \<times> pending option" where
  "detect_done txt reply st =
     (let detected = detectLanguage reply;
          st1 = lang_effect st (st\<lparr>recognitionLang := (if detected = RU then ru_RU else de_DE)\<rparr>)
      in if detected = RU then issue_translate txt RU DE st1
         else issue_translate txt detected RU st1)"

text \<open>
  The continuation after the \<open>/translate\<close> fetch and \<open>response.json()\<close>, lines 234-269. A
  fetch whose signal is aborted rejects with an AbortError whatever the service answered.
  Speech playback (lines 240-259) does not touch the hook's state and is left out.
\<close>

definition signal_aborted :: "hook \<Rightarrow> nat \<Rightarrow> bool" where
  "signal_aborted st i \<longleftrightarrow> i < length (controllers st) \<and> controllers st ! i"

definition translate_done :: "translate_call \<Rightarrow> fetch_reply \<Rightarrow> hook \<Rightarrow> hook" where
  "translate_done call reply st =
     (case (if signal_aborted st (signal call)
            then FetchThrows (JsError (ascii ''AbortError'') (ascii ''signal is aborted without reason''))
            else reply) of
        FetchJson f \<Rightarrow>
          finally_block (st\<lparr>translatedText := js_or f [],
                            status := status_done (source_language call) (target_language call)\<rparr>)
      | FetchThrows err \<Rightarrow> catch_block err st)"

subsection \<open>handleRoleChange\<close>

definition handleRoleChange :: "Role \<Rightarrow> hook \<Rightarrow> hook" where
  "handleRoleChange role st =
     (if translationMode st = Manual
      then let st1 = st\<lparr>currentRole := role\<rparr>
           in case recognitionRef st1 of
                None \<Rightarrow> st1
              | Some i \<Rightarrow>
                  if i < length (recognizers st1)
                  then st1\<lparr>recognizers := (recognizers st1)[i := (recognizers st1 ! i)\<lparr>lang := (if role = User then ru_RU else de_DE)\<rparr>]\<rparr>
                  else st1
      else st)"

subsection \<open>Debounce effect on originalText\<close>

text \<open>
  \<open>setOriginalText\<close> at time \<open>now\<close> (milliseconds). Setting the value it already has
  causes no render. Otherwise React renders, runs the cleanup of the previous effect
  (\<open>clearTimeout\<close>) and then the effect body of lines 46-59.
\<close>

definition setOriginalText :: "nat \<Rightarrow> jsstring \<Rightarrow> hook \<Rightarrow> hook" where
  "setOriginalText now txt st =
     (if txt = originalText st then st
      else
        let st1 = st\<lparr>originalText := txt, debounceTimer := None\<rparr>
        in if txt = [] \<or> length txt < 3
           then (if length txt = 0 then st1\<lparr>translatedText := []\<rparr> else st1)
           else st1\<lparr>debounceTimer := Some (now + 500, txt, translationMode st1, currentRole st1)\<rparr>)"

text \<open>
  The timer callback, run by the event loop at time \<open>now\<close> when the deadline has passed.
\<close>

definition debounce_fire :: "nat \<Rightarrow> hook \<Rightarrow> hook \<times> pending option" where
  "debounce_fire now st =
     (case debounceTimer st of
        None \<Rightarrow> (st, None)
      | Some (deadline, txt, mode, role) \<Rightarrow>
          if deadline \<le> now then performTranslation mode role txt (st\<lparr>debounceTimer := None\<rparr>)
          else (st, None))"

text \<open>
  A run of utterance updates, each with its time: before every update the event loop runs
  the debounce timer if it is due. The result is the final state and the translation
  pipelines started on the way.
\<close>

fun run_updates :: "(nat \<times> jsstring) list \<Rightarrow> hook \<Rightarrow> hook \<times> pending list" where
  "run_updates [] st = (st, [])"
| "run_updates ((now, txt) # us) st =
     (case debounce_fire now st of
        (st1, p) \<Rightarrow>
          (case run_updates us (setOriginalText now txt st1) of
             (st2, ps) \<Rightarrow> (st2, (case p of None \<Rightarrow> [] | Some q \<Rightarrow> [q]) @ ps)))"

text \<open>
  A burst: every update changes the text and comes less than 500 ms after the one before
  it (\<open>prev\<close> and \<open>t0\<close> are the text and the time of the update before the first).
\<close>

fun burst :: "jsstring \<Rightarrow> nat \<Rightarrow> (nat \<times> jsstring) list \<Rightarrow> bool" where
  "burst prev t0 [] = True"
| "burst prev t0 ((now, txt) # us) =
     (txt \<noteq> prev \<and> t0 \<le> now \<and> now < t0 + 500 \<and> burst txt now us)"

subsection \<open>Channel manager: initWebSocket and scheduleReconnect\<close>

definition delays :: "nat list" where
  "delays = [1000, 2000, 5000, 10000, 30000]"

definition scheduleReconnect :: "hook \<Rightarrow> hook" where
  "scheduleReconnect st =
     (let delay = delays ! min (reconnectAttemptsRef st) (length delays - 1)
      in st\<lparr>status := status_reconnect delay,
            reconnectTimers := reconnectTimers st @ [(delay, True)],
            reconnectTimeoutRef := Some (length (reconnectTimers st))\<rparr>)"

text \<open>\<open>ctor_throws\<close>: whether \<open>new WebSocket(...)\<close> throws.\<close>

definition initWebSocket :: "bool \<Rightarrow> hook \<Rightarrow> hook" where
  "initWebSocket ctor_throws st =
     (if ctor_throws then scheduleReconnect (st\<lparr>connection_ws := False\<rparr>)
      else st\<lparr>sockets := sockets st + 1, websocketRef := Some (sockets st)\<rparr>)"

definition ws_onopen :: "hook \<Rightarrow> hook" where
  "ws_onopen st = st\<lparr>connection_ws := True, reconnectAttemptsRef := 0, status := status_connected\<rparr>"

definition ws_onclose :: "hook \<Rightarrow> hook" where
  "ws_onclose st = scheduleReconnect (st\<lparr>connection_ws := False\<rparr>)"

definition ws_onerror :: "hook \<Rightarrow> hook" where
  "ws_onerror st = st\<lparr>connection_ws := False\<rparr>"

text \<open>The callback of the reconnect timer, lines 122-125.\<close>

definition reconnect_timer :: "bool \<Rightarrow> hook \<Rightarrow> hook" where
  "reconnect_timer ctor_throws st =
     initWebSocket ctor_throws (st\<lparr>reconnectAttemptsRef := reconnectAttemptsRef st + 1\<rparr>)"

text \<open>
  Timer \<open>i\<close> expires: the event loop runs its callback once, if the timer is pending.
  A timer that is not pending never runs.
\<close>

definition timer_pending :: "hook \<Rightarrow> nat \<Rightarrow> bool" where
  "timer_pending st i \<longleftrightarrow> i < length (reconnectTimers st) \<and> snd (reconnectTimers st ! i)"

definition reconnect_timer_fires :: "nat \<Rightarrow> bool \<Rightarrow> hook \<Rightarrow> hook" where
  "reconnect_timer_fires i ctor_throws st =
     (if timer_pending st i
      then reconnect_timer ctor_throws
             (st\<lparr>reconnectTimers := (reconnectTimers st)[i := (fst (reconnectTimers st ! i), False)]\<rparr>)
      else st)"

text \<open>
  One failed retry: the timer scheduled last expires, and the connection its callback
  opens fails, either at once (the constructor throws) or later (the socket closes
  without having opened). Without a pending timer there is no retry.
\<close>

definition failed_retry :: "bool \<Rightarrow> hook \<Rightarrow> hook" where
  "failed_retry ctor_throws st =
     (case reconnectTimeoutRef st of
        None \<Rightarrow> st
      | Some i \<Rightarrow>
          if timer_pending st i
          then (if ctor_throws then reconnect_timer_fires i True st
                else ws_onclose (reconnect_timer_fires i False st))
          else st)"

subsection \<open>Capture source: the recognizer and startRecording / stopRecording\<close>

text \<open>
  \<open>recognition.start()\<close> on recognizer \<open>i\<close>: it throws when the recognizer is already
  started or when the environment refuses (\<open>fault\<close>); the second component says whether
  it threw.
\<close>

definition recognition_start :: "bool \<Rightarrow> nat \<Rightarrow> hook \<Rightarrow> hook \<times> bool" where
  "recognition_start fault i st =
     (if i < length (recognizers st)
      then if fault \<or> running (recognizers st ! i) then (st, True)
           else (st\<lparr>recognizers := (recognizers st)[i := (recognizers st ! i)\<lparr>running := True\<rparr>]\<rparr>, False)
      else (st, True))"

definition recognition_stop :: "nat \<Rightarrow> hook \<Rightarrow> hook" where
  "recognition_stop i st =
     (if i < length (recognizers st)
      then st\<lparr>recognizers := (recognizers st)[i := (recognizers st ! i)\<lparr>running := False\<rparr>]\<rparr>
      else st)"

text \<open>
  \<open>initSpeechRecognition\<close>, lines 128-174. \<open>supported\<close>: whether the window has a
  SpeechRecognition constructor. \<open>r_lang\<close> and \<open>r_isRecording\<close> are \<open>recognitionLang\<close> and
  \<open>isRecording\<close> of the render whose \<open>initSpeechRecognition\<close> is called.
\<close>

definition initSpeechRecognition :: "bool \<Rightarrow> jsstring \<Rightarrow> bool \<Rightarrow> hook \<Rightarrow> hook" where
  "initSpeechRecognition supported r_lang r_isRecording st =
     (if \<not> supported then st\<lparr>connection_speech := False\<rparr>
      else st\<lparr>recognizers := recognizers st @
                  [\<lparr>lang = r_lang, running = False, onend_isRecording = r_isRecording\<rparr>],
               recognitionRef := Some (length (recognizers st)),
               connection_speech := True\<rparr>)"

text \<open>
  The \<open>end\<close> event of recognizer \<open>i\<close>: the recognizer is no longer running, then its
  \<open>onend\<close> handler (lines 162-170) runs with the \<open>isRecording\<close> it closed over.
\<close>

definition recognition_onend :: "bool \<Rightarrow> nat \<Rightarrow> hook \<Rightarrow> hook" where
  "recognition_onend fault i st =
     (if i < length (recognizers st)
      then let st0 = recognition_stop i st
           in if onend_isRecording (recognizers st ! i)
              then (case recognition_start fault i st0 of
                      (st1, threw) \<Rightarrow> if threw then st1\<lparr>isRecording := False\<rparr> else st1)
              else st0
      else st)"

text \<open>
  \<open>initSystem\<close>, run once by the mount effect: its \<open>initSpeechRecognition\<close> is the first
  render's.
\<close>

definition initSystem :: "bool \<Rightarrow> bool \<Rightarrow> hook \<Rightarrow> hook" where
  "initSystem ctor_throws supported st =
     (initSpeechRecognition supported (recognitionLang initial) (isRecording initial)
        (initWebSocket ctor_throws st))\<lparr>status := status_ready\<rparr>"

definition startRecording :: "bool \<Rightarrow> hook \<Rightarrow> hook" where
  "startRecording fault st =
     (case recognitionRef st of
        None \<Rightarrow> st\<lparr>status := status_no_microphone\<rparr>
      | Some i \<Rightarrow>
          if \<not> connection_speech st then st\<lparr>status := status_speech_not_ready\<rparr>
          else (case recognition_start fault i (st\<lparr>isRecording := True, status := status_recording\<rparr>) of
                  (st1, threw) \<Rightarrow> if threw then st1\<lparr>isRecording := False\<rparr> else st1))"

definition stopRecording :: "hook \<Rightarrow> hook" where
  "stopRecording st =
     (let st1 = st\<lparr>isRecording := False, status := status_stopped\<rparr>
      in case recognitionRef st1 of None \<Rightarrow> st1 | Some i \<Rightarrow> recognition_stop i st1)"

definition toggleTranslationMode :: "bool \<Rightarrow> hook \<Rightarrow> hook" where
  "toggleTranslationMode supported st =
     (let newMode = (if translationMode st = Manual then Auto else Manual);
          newLang = (if newMode = Manual then (if currentRole st = User then ru_RU else de_DE)
                     else ru_RU);
          st1 = st\<lparr>translationMode := newMode,
                    status := (if newMode = Auto then status_auto_mode else status_manual_mode),
                    recognitionLang := newLang\<rparr>;
          st2 = (case recognitionRef st1 of
                   None \<Rightarrow> st1
                 | Some i \<Rightarrow>
                     if i < length (recognizers st1)
                     then recognition_stop i
                            (st1\<lparr>recognizers := (recognizers st1)[i := (recognizers st1 ! i)\<lparr>lang := newLang\<rparr>]\<rparr>)
                     else st1)
      in lang_effect st (initSpeechRecognition supported (recognitionLang st) (isRecording st) st2))"

text \<open>Whether the recognizer the hook holds is capturing.\<close>

definition capturing :: "hook \<Rightarrow> bool" where
  "capturing st =
     (case recognitionRef st of
        None \<Rightarrow> False
      | Some i \<Rightarrow> i < length (recognizers st) \<and> running (recognizers st ! i))"

subsection \<open>Observations and example inputs\<close>

text \<open>The language pair of the \<open>/translate\<close> request a pipeline has issued, if it has.\<close>

definition language_pair :: "pending option \<Rightarrow> (jsstring \<times> jsstring) option" where
  "language_pair p =
     (case p of
        Some (AwaitTranslate call) \<Rightarrow> Some (source_language call, target_language call)
      | _ \<Rightarrow> None)"

definition hallo :: jsstring where
  "hallo = ascii ''Hallo''"

definition privet :: jsstring where
  "privet = [0x041F, 0x0440, 0x0438, 0x0432, 0x0435, 0x0442]"

text \<open>Auto mode, first request: \<open>performTranslation("Hallo")\<close> is waiting for the detection.\<close>

definition one_token :: hook where
  "one_token = fst (performTranslation Auto User hallo initial)"

text \<open>The detection of that request has answered \<open>"DE"\<close>.\<close>

definition german_detected :: hook where
  "german_detected = fst (detect_done hallo (DetectJson (Some DE)) one_token)"

definition hal :: jsstring where
  "hal = ascii ''Hal''"

definition hall :: jsstring where
  "hall = ascii ''Hall''"

definition hallo_welt :: jsstring where
  "hallo_welt = ascii ''Hallo Welt''"

definition privet_mir :: jsstring where
  "privet_mir = [0x041F, 0x0440, 0x0438, 0x0432, 0x0435, 0x0442, 0x0020, 0x043C, 0x0438, 0x0440]"

text \<open>The \<open>/translate\<close> request of that pipeline, carrying the pipeline's own token.\<close>

definition hallo_request :: translate_call where
  "hallo_request = \<lparr>body_text = hallo, source_language = DE, target_language = RU, signal = 0\<rparr>"

text \<open>
  The state the debounce effect leaves behind an update to \<open>x\<close> at time \<open>t\<close>, in a render
  with mode \<open>m\<close> and role \<open>r\<close>: the text is \<open>x\<close> and the timer, if \<open>x\<close> is long enough to
  have one, is due at \<open>t + 500\<close> and carries \<open>x\<close>.
\<close>

definition settled :: "TranslationMode \<Rightarrow> Role \<Rightarrow> nat \<Rightarrow> jsstring \<Rightarrow> hook \<Rightarrow> bool" where
  "settled m r t x s \<longleftrightarrow>
     originalText s = x \<and> translationMode s = m \<and> currentRole s = r \<and>
     debounceTimer s = (if length x < 3 then None else Some (t + 500, x, m, r))"

text \<open>
  Every AbortController but the one the hook holds is aborted: at most one token is live.
\<close>

definition one_live_token :: "hook \<Rightarrow> bool" where
  "one_live_token st \<longleftrightarrow>
     (case abortControllerRef st of
        None \<Rightarrow> list_all id (controllers st)
      | Some i \<Rightarrow> i < length (controllers st) \<and> list_all id ((controllers st)[i := True]))"

text \<open>
  Two overlapping requests in auto mode. Request A (\<open>"Hallo"\<close>) is \<open>one_token\<close>; request B
  (\<open>"Hallo Welt"\<close>) starts while A waits for its detection. Then A's detection answers, B's
  detection answers, B's translation arrives, and A's translation arrives last.
  \<open>call_A\<close> and \<open>call_B\<close> are the two \<open>/translate\<close> requests as issued.
\<close>

definition race_B_started :: hook where
  "race_B_started = fst (performTranslation Auto User hallo_welt one_token)"

definition race_A_detected :: "hook \<times> pending option" where
  "race_A_detected = detect_done hallo (DetectJson (Some DE)) race_B_started"

definition race_B_detected :: "hook \<times> pending option" where
  "race_B_detected = detect_done hallo_welt (DetectJson (Some DE)) (fst race_A_detected)"

definition call_A :: translate_call where
  "call_A = \<lparr>body_text = hallo, source_language = DE, target_language = RU, signal = 1\<rparr>"

definition call_B :: translate_call where
  "call_B = \<lparr>body_text = hallo_welt, source_language = DE, target_language = RU, signal = 1\<rparr>"

definition race_B_done :: hook where
  "race_B_done = translate_done call_B (FetchJson (Some privet_mir)) (fst race_B_detected)"

definition race_A_done :: hook where
  "race_A_done = translate_done call_A (FetchJson (Some privet)) race_B_done"

text \<open>
  A capture session: the hook mounts (speech recognition is supported), the user starts
  recording, and the recognizer ends by itself.
\<close>

definition mounted :: hook where
  "mounted = initSystem False True initial"

definition recording :: hook where
  "recording = startRecording False mounted"

definition ended :: hook where
  "ended = recognition_onend False 0 recording"

text \<open>
  While recording, the mode is toggled: the first recognizer is stopped (its \<open>end\<close> event
  follows) and a second one is built. The user stops and starts recording again, then
  stops; the \<open>end\<close> event of the second recognizer follows the stop.
\<close>

definition toggled :: hook where
  "toggled = recognition_onend False 0 (toggleTranslationMode True recording)"

definition restarted :: hook where
  "restarted = startRecording False (stopRecording toggled)"

definition stopped :: hook where
  "stopped = stopRecording restarted"

definition resurrected :: hook where
  "resurrected = recognition_onend False 1 stopped"

text \<open>
  A mode toggle during the debounce wait: the hook is mounted in auto mode, the text
  becomes \<open>"Hallo"\<close> at time 0, the mode is toggled to manual before the timer is due,
  and the timer fires at 500 ms.
\<close>

definition armed :: hook where
  "armed = setOriginalText 0 hallo mounted"

definition switched :: hook where
  "switched = toggleTranslationMode True armed"

definition stale_fire :: "hook \<times> pending option" where
  "stale_fire = debounce_fire 500 switched"

section \<open>Properties\<close>

subsection \<open>Auxiliary facts\<close>

lemma RU_neq: "RU \<noteq> DE" "DE \<noteq> RU" "RU \<noteq> []" "DE \<noteq> []" "ru_RU \<noteq> de_DE"
  by (simp_all add: RU_def DE_def ru_RU_def de_DE_def ascii_def)

lemma guard_hallo: "\<not> (trim hallo = [] \<or> length hallo < 3)"
  by (simp add: hallo_def trim_def ascii_def is_ws_def)

lemma one_token_ref: "abortControllerRef one_token = Some 0"
  by (simp add: one_token_def performTranslation_def guard_hallo initial_def Let_def)

lemma detect_RU: "detectLanguage (DetectJson (Some RU)) = RU"
  using RU_neq by (simp add: detectLanguage_def js_or_def)

lemma detect_DE: "detectLanguage (DetectJson (Some DE)) = DE"
  using RU_neq by (simp add: detectLanguage_def js_or_def)

lemma detect_done_pair:
  "abortControllerRef st \<noteq> None \<Longrightarrow>
   language_pair (snd (detect_done txt reply st)) =
     Some (if detectLanguage reply = RU then (RU, DE) else (detectLanguage reply, RU))"
  by (auto simp: detect_done_def issue_translate_def language_pair_def lang_effect_def Let_def
      split: option.splits)

lemma performTranslation_manual_pair:
  "\<not> (trim txt = [] \<or> length txt < 3) \<Longrightarrow>
   language_pair (snd (performTranslation Manual role txt st)) =
     Some (if role = User then (RU, DE) else (DE, RU))"
  by (auto simp: performTranslation_def issue_translate_def language_pair_def Let_def
      split: option.splits)

lemma recognitionLang_issue:
  "recognitionLang (fst (issue_translate t a b st)) = recognitionLang st"
  by (simp add: issue_translate_def catch_block_def finally_block_def split: option.split)

lemma recognitionLang_lang_effect:
  "recognitionLang (lang_effect prev st) = recognitionLang st"
  by (simp add: lang_effect_def split: option.split)

lemma abortControllerRef_detect_done:
  "abortControllerRef (fst (detect_done t reply st)) = abortControllerRef st"
  by (simp add: detect_done_def issue_translate_def lang_effect_def catch_block_def
      finally_block_def Let_def split: option.split)

subsection \<open>Language resolution\<close>

lemma performTranslation_auto_detects:
  "\<not> (trim txt = [] \<or> length txt < 3) \<Longrightarrow>
   snd (performTranslation Auto role txt st) = Some (AwaitDetect txt) \<and>
   abortControllerRef (fst (performTranslation Auto role txt st)) \<noteq> None"
  by (simp add: performTranslation_def Let_def)

text \<open>
  What holds of every request that \<open>performTranslation\<close> issues when it is called from the
  current render, so that the mode and role it closes over are the hook's. Here
  \<open>detectLanguage\<close> answers \<open>"RU"\<close> when the call fails and when the response has no
  \<open>detected_language\<close> field. In auto mode the call asks for a detection of the raw text
  and issues no \<open>/translate\<close> request yet; the continuation after the detection issues it
  with source RU and target DE when the detection result is \<open>"RU"\<close>, and with the detected
  value as source and RU as target otherwise. In manual mode the request of role \<open>user\<close>
  has source RU and target DE and that of the counterpart the reverse, whatever the text.
\<close>

lemma pair_resolved_from_current_mode:
  assumes "\<not> (trim txt = [] \<or> length txt < 3)"
  shows "detectLanguage DetectThrows = RU \<and> detectLanguage (DetectJson None) = RU \<and>
    (translationMode st = Auto \<longrightarrow>
       snd (performTranslation (translationMode st) (currentRole st) txt st) = Some (AwaitDetect txt) \<and>
       abortControllerRef (fst (performTranslation (translationMode st) (currentRole st) txt st)) \<noteq> None \<and>
       (abortControllerRef later \<noteq> None \<longrightarrow>
          language_pair (snd (detect_done txt reply later)) =
            Some (if detectLanguage reply = RU then (RU, DE) else (detectLanguage reply, RU)))) \<and>
    (translationMode st = Manual \<longrightarrow>
       language_pair (snd (performTranslation (translationMode st) (currentRole st) txt st)) =
         Some (if currentRole st = User then (RU, DE) else (DE, RU)))"
proof -
  have "detectLanguage DetectThrows = RU" "detectLanguage (DetectJson None) = RU"
    by (simp_all add: detectLanguage_def js_or_def)
  moreover have "translationMode st = Auto \<Longrightarrow>
       snd (performTranslation (translationMode st) (currentRole st) txt st) = Some (AwaitDetect txt) \<and>
       abortControllerRef (fst (performTranslation (translationMode st) (currentRole st) txt st)) \<noteq> None"
    using performTranslation_auto_detects [OF assms, of "currentRole st" st] by simp
  moreover have "abortControllerRef later \<noteq> None \<Longrightarrow>
          language_pair (snd (detect_done txt reply later)) =
            Some (if detectLanguage reply = RU then (RU, DE) else (detectLanguage reply, RU))"
    by (rule detect_done_pair)
  moreover have "translationMode st = Manual \<Longrightarrow>
       language_pair (snd (performTranslation (translationMode st) (currentRole st) txt st)) =
         Some (if currentRole st = User then (RU, DE) else (DE, RU))"
    using performTranslation_manual_pair [OF assms, of "currentRole st" st] by simp
  ultimately show ?thesis by blast
qed

text \<open>
  C2, as stated: a detection result \<open>"RU"\<close> leaves the recognition locale alone. It does
  not: after a German utterance has set the locale to \<open>de-DE\<close>, the detection result
  \<open>"RU"\<close> for the next utterance sets it to \<open>ru-RU\<close>.
\<close>

theorem locale_not_updated_counterexample:
  "recognitionLang german_detected = de_DE \<and>
   detectLanguage (DetectJson (Some RU)) = RU \<and>
   recognitionLang (fst (detect_done privet (DetectJson (Some RU)) german_detected)) = ru_RU \<and>
   recognitionLang (fst (detect_done privet (DetectJson (Some RU)) german_detected))
     \<noteq> recognitionLang german_detected"
  using RU_neq
  by (simp add: german_detected_def detect_done_def detectLanguage_def js_or_def
      issue_translate_def lang_effect_def one_token_ref Let_def split: option.split)

text \<open>
  C2, amended: in auto mode every detection result sets the recognition locale, to \<open>ru-RU\<close>
  when the result is \<open>"RU"\<close> and to \<open>de-DE\<close> otherwise; with the result \<open>"RU"\<close> the request
  has source RU and target DE.
\<close>

theorem detection_sets_locale:
  "recognitionLang (fst (detect_done txt reply st)) =
     (if detectLanguage reply = RU then ru_RU else de_DE) \<and>
   (abortControllerRef st \<noteq> None \<longrightarrow> detectLanguage reply = RU \<longrightarrow>
      language_pair (snd (detect_done txt reply st)) = Some (RU, DE))"
proof -
  have "recognitionLang (fst (detect_done txt reply st)) =
     (if detectLanguage reply = RU then ru_RU else de_DE)"
    by (simp add: detect_done_def Let_def recognitionLang_issue recognitionLang_lang_effect)
  moreover have "abortControllerRef st \<noteq> None \<Longrightarrow> detectLanguage reply = RU \<Longrightarrow>
      language_pair (snd (detect_done txt reply st)) = Some (RU, DE)"
    using detect_done_pair [of st "txt" reply] by simp
  ultimately show ?thesis by blast
qed

theorem detection_sets_locale_witness:
  "abortControllerRef german_detected \<noteq> None \<and> detectLanguage (DetectJson (Some RU)) = RU \<and>
   recognitionLang (fst (detect_done privet (DetectJson (Some RU)) german_detected)) = ru_RU \<and>
   language_pair (snd (detect_done privet (DetectJson (Some RU)) german_detected)) = Some (RU, DE)"
proof -
  have "abortControllerRef german_detected \<noteq> None"
    by (simp add: german_detected_def abortControllerRef_detect_done one_token_ref)
  then show ?thesis
    using detection_sets_locale [of privet "DetectJson (Some RU)" german_detected] detect_RU
    by simp
qed

subsection \<open>Publishing the result\<close>

text \<open>
  C9: when the \<open>/translate\<close> fetch resolves (its signal is not aborted), the published
  result is the \<open>translated_text\<close> field, or the empty string when the field is absent, and
  the status is the check mark followed by \<open><source> \<rightarrow> <target>\<close> for the pair of the
  request; a response \<open>{}\<close> gives the empty result and the same status.
\<close>

theorem translation_success_published:
  "\<not> signal_aborted st (signal call) \<longrightarrow>
     translatedText (translate_done call (FetchJson f) st) = (case f of None \<Rightarrow> [] | Some t \<Rightarrow> t) \<and>
     status (translate_done call (FetchJson f) st) =
       [0x2705, 0x0020] @ source_language call @ [0x0020, 0x2192, 0x0020] @ target_language call \<and>
     translatedText (translate_done call (FetchJson None) st) = [] \<and>
     status (translate_done call (FetchJson None) st) =
       [0x2705, 0x0020] @ pair_text (source_language call) (target_language call)"
  by (simp add: translate_done_def finally_block_def js_or_def status_done_def pair_text_def
      split: option.split)

theorem translation_success_published_witness:
  "\<not> signal_aborted german_detected (signal hallo_request) \<and>
   translatedText (translate_done hallo_request (FetchJson (Some privet)) german_detected) = privet \<and>
   translatedText (translate_done hallo_request (FetchJson None) german_detected) = [] \<and>
   status (translate_done hallo_request (FetchJson None) german_detected) =
     [0x2705, 0x0020] @ DE @ [0x0020, 0x2192, 0x0020] @ RU"
proof -
  have "controllers german_detected = [False]"
    by (simp add: german_detected_def detect_done_def issue_translate_def lang_effect_def
        one_token_def performTranslation_def guard_hallo initial_def Let_def split: option.split)
  then have live: "\<not> signal_aborted german_detected (signal hallo_request)"
    by (simp add: signal_aborted_def hallo_request_def)
  show ?thesis
    using translation_success_published [of german_detected hallo_request "Some privet"] live
    by (simp add: hallo_request_def pair_text_def)
qed

subsection \<open>Role changes\<close>

text \<open>
  C10: in auto mode \<open>handleRoleChange\<close> changes nothing at all, whatever the role; in
  manual mode it sets the current role.
\<close>

theorem handleRoleChange_auto_noop:
  "(translationMode st = Auto \<longrightarrow> handleRoleChange role st = st) \<and>
   (translationMode st = Manual \<longrightarrow> currentRole (handleRoleChange role st) = role)"
  by (simp add: handleRoleChange_def Let_def split: option.split)

theorem handleRoleChange_auto_noop_witness:
  "translationMode initial = Auto \<and> handleRoleChange Steuerberater initial = initial \<and>
   translationMode (initial\<lparr>translationMode := Manual\<rparr>) = Manual \<and>
   currentRole (handleRoleChange Steuerberater (initial\<lparr>translationMode := Manual\<rparr>)) = Steuerberater"
  using handleRoleChange_auto_noop [of initial Steuerberater]
    handleRoleChange_auto_noop [of "initial\<lparr>translationMode := Manual\<rparr>" Steuerberater]
  by (simp add: initial_def)

subsection \<open>Guard and debounce\<close>

text \<open>
  C5: an utterance text shorter than 3 code units. Setting it changes the text, cancels
  the pending debounce timer and, when the text is empty, clears the translation result;
  nothing else changes, the status in particular. No timer is left that could start a
  translation, and \<open>performTranslation\<close> called with such a text returns at its guard
  without any effect and without a request.
\<close>

theorem short_utterance_rejected:
  "length txt < 3 \<longrightarrow>
     setOriginalText now txt st =
       (if txt = originalText st then st
        else st\<lparr>originalText := txt, debounceTimer := None,
                 translatedText := (if txt = [] then [] else translatedText st)\<rparr>) \<and>
     status (setOriginalText now txt st) = status st \<and>
     (txt \<noteq> originalText st \<longrightarrow>
        debounce_fire later (setOriginalText now txt st) = (setOriginalText now txt st, None)) \<and>
     performTranslation mode role txt st = (st, None)"
  by (auto simp: setOriginalText_def debounce_fire_def performTranslation_def Let_def)

theorem short_utterance_rejected_witness:
  "length (ascii ''Hi'') < 3 \<and> ascii ''Hi'' \<noteq> originalText initial \<and>
   translatedText (setOriginalText 0 (ascii ''Hi'') initial) = translatedText initial \<and>
   status (setOriginalText 0 (ascii ''Hi'') initial) = status initial \<and>
   debounce_fire 500 (setOriginalText 0 (ascii ''Hi'') initial) =
     (setOriginalText 0 (ascii ''Hi'') initial, None) \<and>
   performTranslation Auto User (ascii ''Hi'') initial = (initial, None)"
proof -
  have short: "length (ascii ''Hi'') < 3"
    by (simp add: ascii_def)
  have change: "ascii ''Hi'' \<noteq> originalText initial" "ascii ''Hi'' \<noteq> []"
    by (simp_all add: ascii_def initial_def)
  note inst = short_utterance_rejected [of "ascii ''Hi''" 0 initial 500 Auto User, rule_format, OF short]
  have "translatedText (setOriginalText 0 (ascii ''Hi'') initial) = translatedText initial"
    using inst change by simp
  then show ?thesis
    using inst short change by blast
qed

lemma settled_setOriginalText:
  "x \<noteq> originalText s \<Longrightarrow>
   settled (translationMode s) (currentRole s) now x (setOriginalText now x s)"
  by (auto simp: settled_def setOriginalText_def Let_def)

lemma settled_not_due:
  "settled m r t x s \<Longrightarrow> now < t + 500 \<Longrightarrow> debounce_fire now s = (s, None)"
  by (auto simp: settled_def debounce_fire_def)

lemma settled_run_updates:
  "settled m r t0 x0 s \<Longrightarrow> burst x0 t0 us \<Longrightarrow>
   snd (run_updates us s) = [] \<and>
   settled m r (fst (last ((t0, x0) # us))) (snd (last ((t0, x0) # us))) (fst (run_updates us s))"
proof (induction us arbitrary: s t0 x0)
  case Nil
  then show ?case by simp
next
  case (Cons u us)
  obtain now x where u: "u = (now, x)" by (cases u)
  from Cons.prems u have b: "x \<noteq> x0" "now < t0 + 500" "burst x now us"
    by simp_all
  from Cons.prems(1) b(2) have quiet: "debounce_fire now s = (s, None)"
    by (rule settled_not_due)
  from Cons.prems(1) b(1) have "x \<noteq> originalText s" "translationMode s = m" "currentRole s = r"
    by (simp_all add: settled_def)
  then have "settled m r now x (setOriginalText now x s)"
    using settled_setOriginalText [of x s now] by simp
  from Cons.IH [OF this b(3)] show ?case
    using quiet u by (simp add: split_beta)
qed

text \<open>
  C4: a burst of utterance changes \<open>(t0, x0), us\<close>, each less than 500 ms after the one
  before it. No translation pipeline starts during the burst. Afterwards the only timer
  is the one of the last update: it does nothing before 500 ms have passed since that
  update, and from then on it calls \<open>performTranslation\<close> with the last update's text
  (unless that text is shorter than 3, which has no timer).
\<close>

theorem debounce_last_update_only:
  assumes "x0 \<noteq> originalText st" and "burst x0 t0 us"
  shows "snd (run_updates us (setOriginalText t0 x0 st)) = [] \<and>
    debounce_fire now (fst (run_updates us (setOriginalText t0 x0 st))) =
      (if length (snd (last ((t0, x0) # us))) < 3 \<or> now < fst (last ((t0, x0) # us)) + 500
       then (fst (run_updates us (setOriginalText t0 x0 st)), None)
       else performTranslation (translationMode st) (currentRole st) (snd (last ((t0, x0) # us)))
              ((fst (run_updates us (setOriginalText t0 x0 st)))\<lparr>debounceTimer := None\<rparr>))"
proof -
  let ?s = "setOriginalText t0 x0 st"
  have "settled (translationMode st) (currentRole st) t0 x0 ?s"
    using assms(1) by (rule settled_setOriginalText)
  from settled_run_updates [OF this assms(2)]
  show ?thesis
    by (auto simp: settled_def debounce_fire_def)
qed

lemma burst_texts: "hal \<noteq> []" "hall \<noteq> hal" "hallo \<noteq> hall" "length hallo = 5"
  by (simp_all add: hal_def hall_def hallo_def ascii_def)

theorem debounce_last_update_only_witness:
  "hal \<noteq> originalText initial \<and> burst hal 0 [(200, hall), (450, hallo)] \<and>
   snd (run_updates [(200, hall), (450, hallo)] (setOriginalText 0 hal initial)) = [] \<and>
   debounce_fire 949 (fst (run_updates [(200, hall), (450, hallo)] (setOriginalText 0 hal initial))) =
     (fst (run_updates [(200, hall), (450, hallo)] (setOriginalText 0 hal initial)), None) \<and>
   debounce_fire 950 (fst (run_updates [(200, hall), (450, hallo)] (setOriginalText 0 hal initial))) =
     performTranslation Auto User hallo
       ((fst (run_updates [(200, hall), (450, hallo)] (setOriginalText 0 hal initial)))\<lparr>debounceTimer := None\<rparr>)"
proof -
  have h1: "hal \<noteq> originalText initial"
    using burst_texts by (simp add: initial_def)
  have h2: "burst hal 0 [(200, hall), (450, hallo)]"
    using burst_texts by simp
  have m: "translationMode initial = Auto" "currentRole initial = User"
    by (simp_all add: initial_def)
  show ?thesis
    using debounce_last_update_only [OF h1 h2, of 949] debounce_last_update_only [OF h1 h2, of 950]
      h1 h2 m burst_texts
    by simp
qed

subsection \<open>Reconnect backoff\<close>

lemma scheduleReconnect_timers:
  "reconnectTimers (scheduleReconnect st) =
     reconnectTimers st @ [(delays ! min (reconnectAttemptsRef st) (length delays - 1), True)]"
  "reconnectTimeoutRef (scheduleReconnect st) = Some (length (reconnectTimers st))"
  "reconnectAttemptsRef (scheduleReconnect st) = reconnectAttemptsRef st"
  "sockets (scheduleReconnect st) = sockets st"
  by (simp_all add: scheduleReconnect_def Let_def)

lemma failed_retry_step:
  assumes "reconnectTimers s = ts @ [(d, True)]" and "reconnectTimeoutRef s = Some (length ts)"
  shows "reconnectTimers (failed_retry b s) =
           ts @ [(d, False), (delays ! min (reconnectAttemptsRef s + 1) (length delays - 1), True)]"
    and "reconnectTimeoutRef (failed_retry b s) = Some (length ts + 1)"
    and "reconnectAttemptsRef (failed_retry b s) = reconnectAttemptsRef s + 1"
    and "sockets (failed_retry b s) = sockets s + (if b then 0 else 1)"
  using assms
  by (simp_all add: failed_retry_def timer_pending_def reconnect_timer_fires_def
      reconnect_timer_def initWebSocket_def ws_onclose_def scheduleReconnect_timers)

lemma backoff_run:
  "reconnectTimers (fold failed_retry bs (ws_onclose (ws_onopen st))) =
     reconnectTimers st @
       map (\<lambda>n. (delays ! min n (length delays - 1), False)) [0..<length bs] @
       [(delays ! min (length bs) (length delays - 1), True)] \<and>
   reconnectTimeoutRef (fold failed_retry bs (ws_onclose (ws_onopen st))) =
     Some (length (reconnectTimers st) + length bs) \<and>
   reconnectAttemptsRef (fold failed_retry bs (ws_onclose (ws_onopen st))) = length bs \<and>
   sockets (fold failed_retry bs (ws_onclose (ws_onopen st))) = sockets st + length (filter Not bs)"
proof (induction bs rule: rev_induct)
  case Nil
  show ?case
    by (simp add: ws_onclose_def ws_onopen_def scheduleReconnect_timers)
next
  case (snoc b bs)
  let ?s = "fold failed_retry bs (ws_onclose (ws_onopen st))"
  let ?ts = "reconnectTimers st @ map (\<lambda>n. (delays ! min n (length delays - 1), False)) [0..<length bs]"
  from snoc have t: "reconnectTimers ?s = ?ts @ [(delays ! min (length bs) (length delays - 1), True)]"
    and r: "reconnectTimeoutRef ?s = Some (length ?ts)"
    and a: "reconnectAttemptsRef ?s = length bs"
    and k: "sockets ?s = sockets st + length (filter Not bs)"
    by simp_all
  from failed_retry_step [OF t r, of b] a k show ?case
    by simp
qed

text \<open>
  C6: the schedule is 1 s, 2 s, 5 s, 10 s, 30 s. A connection opens and closes, and then
  \<open>length bs\<close> retries fail one after the other, each by a throwing constructor or by a
  close. The timers scheduled on the way are exactly one per failure, the one after \<open>n\<close>
  failed retries with the delay \<open>delays[min(n, 4)]\<close>; all but the last have run and the
  last is pending, so there is always a next retry. The attempt counter is the number of
  failed retries, and every retry that did not throw has constructed a socket. From the
  fourth failed retry on the delay is 30 s. In every state a close schedules a timer
  with the delay of the current counter; the timer callback increments the counter and
  then reconnects (a throwing constructor already schedules with the incremented
  counter); \<open>onopen\<close> resets the counter to 0.
\<close>

theorem reconnect_backoff_schedule:
  "delays = [1000, 2000, 5000, 10000, 30000] \<and>
   reconnectTimers (fold failed_retry bs (ws_onclose (ws_onopen st))) =
     reconnectTimers st @
       map (\<lambda>n. (delays ! min n (length delays - 1), False)) [0..<length bs] @
       [(delays ! min (length bs) (length delays - 1), True)] \<and>
   reconnectTimeoutRef (fold failed_retry bs (ws_onclose (ws_onopen st))) =
     Some (length (reconnectTimers st) + length bs) \<and>
   reconnectAttemptsRef (fold failed_retry bs (ws_onclose (ws_onopen st))) = length bs \<and>
   sockets (fold failed_retry bs (ws_onclose (ws_onopen st))) = sockets st + length (filter Not bs) \<and>
   delays ! min (4 + k) (length delays - 1) = 30000 \<and>
   reconnectTimers (ws_onclose st) =
     reconnectTimers st @ [(delays ! min (reconnectAttemptsRef st) (length delays - 1), True)] \<and>
   reconnectTimeoutRef (ws_onclose st) = Some (length (reconnectTimers st)) \<and>
   reconnectTimers (reconnect_timer True st) =
     reconnectTimers st @ [(delays ! min (reconnectAttemptsRef st + 1) (length delays - 1), True)] \<and>
   sockets (reconnect_timer False st) = sockets st + 1 \<and>
   websocketRef (reconnect_timer False st) = Some (sockets st) \<and>
   reconnectAttemptsRef (reconnect_timer ctor_throws st) = reconnectAttemptsRef st + 1 \<and>
   reconnectAttemptsRef (ws_onopen st) = 0"
proof -
  have "delays ! min (4 + k) (length delays - 1) = 30000"
    by (simp add: delays_def)
  moreover have "reconnectTimers (ws_onclose st) =
     reconnectTimers st @ [(delays ! min (reconnectAttemptsRef st) (length delays - 1), True)]"
    and "reconnectTimeoutRef (ws_onclose st) = Some (length (reconnectTimers st))"
    by (simp_all add: ws_onclose_def scheduleReconnect_timers)
  moreover have "reconnectTimers (reconnect_timer True st) =
     reconnectTimers st @ [(delays ! min (reconnectAttemptsRef st + 1) (length delays - 1), True)]"
    by (simp add: reconnect_timer_def initWebSocket_def scheduleReconnect_timers)
  moreover have "sockets (reconnect_timer False st) = sockets st + 1"
    and "websocketRef (reconnect_timer False st) = Some (sockets st)"
    by (simp_all add: reconnect_timer_def initWebSocket_def)
  moreover have "reconnectAttemptsRef (reconnect_timer ctor_throws st) = reconnectAttemptsRef st + 1"
    by (simp add: reconnect_timer_def initWebSocket_def scheduleReconnect_timers)
  moreover have "reconnectAttemptsRef (ws_onopen st) = 0"
    by (simp add: ws_onopen_def)
  moreover have "delays = [1000, 2000, 5000, 10000, 30000]"
    by (simp add: delays_def)
  ultimately show ?thesis
    using backoff_run [of bs st] by blast
qed

subsection \<open>Cancellation of superseded requests\<close>

lemma guard_hallo_welt: "\<not> (trim hallo_welt = [] \<or> length hallo_welt < 3)"
  by (simp add: hallo_welt_def trim_def ascii_def is_ws_def)

lemma one_token_eq:
  "one_token = initial\<lparr>controllers := [False], abortControllerRef := Some 0,
      isTranslating := True, status := status_translating\<rparr>"
  by (simp add: one_token_def performTranslation_def guard_hallo initial_def Let_def)

lemma race_B_started_eq:
  "race_B_started = initial\<lparr>controllers := [True, False], abortControllerRef := Some 1,
      isTranslating := True, status := status_translating\<rparr>"
  by (simp add: race_B_started_def one_token_eq performTranslation_def guard_hallo_welt
      initial_def Let_def)

lemma race_A_detected_eq:
  "race_A_detected = (race_B_started\<lparr>recognitionLang := de_DE\<rparr>, Some (AwaitTranslate call_A))"
  using RU_neq
  by (simp add: race_A_detected_def detect_done_def detect_DE issue_translate_def lang_effect_def
      race_B_started_eq call_A_def initial_def Let_def)

lemma race_B_detected_eq:
  "race_B_detected = (race_B_started\<lparr>recognitionLang := de_DE\<rparr>, Some (AwaitTranslate call_B))"
  using RU_neq
  by (simp add: race_B_detected_def race_A_detected_eq detect_done_def detect_DE
      issue_translate_def lang_effect_def race_B_started_eq call_B_def initial_def Let_def)

lemma race_B_done_eq:
  "race_B_done = race_B_started\<lparr>recognitionLang := de_DE, translatedText := privet_mir,
      status := status_done DE RU, isTranslating := False\<rparr>"
  by (simp add: race_B_done_def race_B_detected_eq translate_done_def signal_aborted_def
      finally_block_def js_or_def call_B_def race_B_started_eq privet_mir_def)

text \<open>
  What holds of the protocol in every state: a new request aborts the token the hook
  held, the completion of a request whose signal is aborted only clears the in-flight
  flag, and at most one token is live.
\<close>

lemma new_request_aborts_previous:
  "abortControllerRef st = Some i \<Longrightarrow> i < length (controllers st) \<Longrightarrow>
   \<not> (trim txt = [] \<or> length txt < 3) \<Longrightarrow>
   signal_aborted (fst (performTranslation mode role txt st)) i"
  by (auto simp: performTranslation_def issue_translate_def signal_aborted_def Let_def nth_append)

lemma aborted_completion_discarded:
  "signal_aborted st (signal call) \<Longrightarrow>
   translate_done call reply st = st\<lparr>isTranslating := False\<rparr>"
  by (simp add: translate_done_def catch_block_def finally_block_def)

lemma one_live_token_initial: "one_live_token initial"
  by (simp add: one_live_token_def initial_def)

lemma one_live_token_performTranslation:
  "one_live_token st \<Longrightarrow> one_live_token (fst (performTranslation mode role txt st))"
  by (auto simp: one_live_token_def performTranslation_def issue_translate_def Let_def
      list_update_append split: option.splits)

lemma one_live_token_detect_done:
  "one_live_token st \<Longrightarrow> one_live_token (fst (detect_done txt reply st))"
  by (auto simp: one_live_token_def detect_done_def issue_translate_def lang_effect_def
      catch_block_def finally_block_def Let_def split: option.splits)

lemma one_live_token_translate_done:
  "one_live_token st \<Longrightarrow> one_live_token (translate_done call reply st)"
  by (auto simp: one_live_token_def translate_done_def catch_block_def finally_block_def
      split: option.splits fetch_reply.splits)

text \<open>
  C1 at the two overlapping auto-mode requests. When B starts, A's token (0) is aborted
  and B's token (1) is the live one. A's \<open>/translate\<close> fetch is issued after A's
  detection has answered and takes its signal from \<open>abortControllerRef.current\<close>, which
  by then is B's token: A's request is not cancelled. B's translation is published, and
  A's translation, arriving later, replaces it.
\<close>

theorem superseded_request_overwrites:
  "controllers race_B_started = [True, False] \<and> abortControllerRef race_B_started = Some 1 \<and>
   snd race_A_detected = Some (AwaitTranslate call_A) \<and> signal call_A = 1 \<and>
   snd race_B_detected = Some (AwaitTranslate call_B) \<and>
   translatedText race_B_done = privet_mir \<and>
   translatedText race_A_done = privet \<and> privet \<noteq> privet_mir"
  by (simp add: race_A_done_def race_B_done_eq race_A_detected_eq race_B_detected_eq
      translate_done_def signal_aborted_def finally_block_def js_or_def call_A_def
      race_B_started_eq privet_mir_def privet_def)

subsection \<open>Capture and the recognizer's end event\<close>

lemma mounted_eq:
  "mounted = initial\<lparr>sockets := 1, websocketRef := Some 0, connection_speech := True,
     recognizers := [\<lparr>lang = ru_RU, running = False, onend_isRecording = False\<rparr>],
     recognitionRef := Some 0\<rparr>"
  by (simp add: mounted_def initSystem_def initWebSocket_def initSpeechRecognition_def initial_def)

lemma recording_eq:
  "recording = mounted\<lparr>isRecording := True, status := status_recording,
     recognizers := [\<lparr>lang = ru_RU, running = True, onend_isRecording = False\<rparr>]\<rparr>"
  by (simp add: recording_def startRecording_def recognition_start_def mounted_eq initial_def)

lemma toggled_eq:
  "toggled = recording\<lparr>translationMode := Manual, status := status_manual_mode,
     recognizers := [\<lparr>lang = ru_RU, running = False, onend_isRecording = False\<rparr>,
                     \<lparr>lang = ru_RU, running = False, onend_isRecording = True\<rparr>],
     recognitionRef := Some 1\<rparr>"
  by (simp add: toggled_def toggleTranslationMode_def recognition_onend_def recognition_stop_def
      initSpeechRecognition_def lang_effect_def recording_eq mounted_eq initial_def Let_def)

lemma restarted_eq:
  "restarted = toggled\<lparr>status := status_recording,
     recognizers := [\<lparr>lang = ru_RU, running = False, onend_isRecording = False\<rparr>,
                     \<lparr>lang = ru_RU, running = True, onend_isRecording = True\<rparr>]\<rparr>"
  by (simp add: restarted_def startRecording_def stopRecording_def recognition_start_def
      recognition_stop_def toggled_eq recording_eq mounted_eq initial_def Let_def)

lemma stopped_eq:
  "stopped = toggled\<lparr>isRecording := False, status := status_stopped\<rparr>"
  by (simp add: stopped_def stopRecording_def recognition_stop_def restarted_eq
      toggled_eq recording_eq mounted_eq initial_def Let_def)

text \<open>
  The \<open>onend\<close> handler decides by the \<open>isRecording\<close> it closed over, whatever the hook's
  \<open>isRecording\<close> is at the time of the event.
\<close>

lemma onend_reads_captured_flag:
  "i < length (recognizers st) \<Longrightarrow> \<not> onend_isRecording (recognizers st ! i) \<Longrightarrow>
   recognition_onend fault i st = recognition_stop i st"
  by (simp add: recognition_onend_def Let_def)

lemma onend_restarts_by_captured_flag:
  "i < length (recognizers st) \<Longrightarrow> onend_isRecording (recognizers st ! i) \<Longrightarrow>
   running (recognizers (recognition_onend False i st) ! i)"
  by (simp add: recognition_onend_def recognition_start_def recognition_stop_def Let_def)

text \<open>
  C7 at the session with a mode toggle. The second recognizer was built in a render
  where \<open>isRecording\<close> was true, so its \<open>onend\<close> handler holds \<open>true\<close>. After
  \<open>stopRecording\<close> the flag is off and the recognizer is stopped; the \<open>end\<close> event that
  follows the stop restarts the recognizer, and capture runs again with the flag off.
\<close>

theorem stop_then_end_event_resumes:
  "isRecording restarted \<and> capturing restarted \<and>
   \<not> isRecording stopped \<and> \<not> capturing stopped \<and>
   \<not> isRecording resurrected \<and> capturing resurrected"
  by (simp add: resurrected_def recognition_onend_def recognition_start_def recognition_stop_def
      stopped_eq restarted_eq toggled_eq recording_eq mounted_eq capturing_def initial_def Let_def)

text \<open>
  C8 at the plain session. The recognizer built at mount holds \<open>isRecording = false\<close> in
  its \<open>onend\<close> handler. The user is recording (flag on, recognizer running) when the
  recognizer ends by itself: the handler does not call \<open>start\<close>, the flag stays on and
  nothing is capturing.
\<close>

theorem end_event_without_restart:
  "isRecording recording \<and> capturing recording \<and>
   isRecording ended \<and> \<not> capturing ended"
  by (simp add: ended_def recognition_onend_def recognition_stop_def recording_eq mounted_eq
      capturing_def initial_def Let_def)

subsection \<open>Language resolution behind a stale debounce timer\<close>

lemma armed_eq:
  "armed = mounted\<lparr>originalText := hallo, debounceTimer := Some (500, hallo, Auto, User)\<rparr>"
  by (simp add: armed_def setOriginalText_def mounted_eq initial_def hallo_def ascii_def Let_def)

lemma switched_facts:
  "translationMode switched = Manual" "currentRole switched = User"
  "recognitionLang switched = ru_RU"
  "debounceTimer switched = Some (500, hallo, Auto, User)"
  "abortControllerRef switched = None"
  by (simp_all add: switched_def toggleTranslationMode_def armed_eq mounted_eq initial_def
      lang_effect_def initSpeechRecognition_def recognition_stop_def Let_def)

lemma stale_fire_pending: "snd stale_fire = Some (AwaitDetect hallo)"
  by (simp add: stale_fire_def debounce_fire_def switched_facts performTranslation_def guard_hallo
      Let_def)

lemma stale_fire_token: "abortControllerRef (fst stale_fire) \<noteq> None"
  by (simp add: stale_fire_def debounce_fire_def switched_facts performTranslation_def guard_hallo
      Let_def)

lemma stale_fire_mode:
  "translationMode (fst stale_fire) = Manual" "currentRole (fst stale_fire) = User"
  by (simp_all add: stale_fire_def debounce_fire_def switched_facts performTranslation_def
      guard_hallo Let_def)

text \<open>
  C3 at a mode toggle during the debounce wait. The hook is in manual mode with role
  \<open>user\<close> when the timer fires, but the timer's callback is the \<open>performTranslation\<close> of
  the render that armed it, in auto mode: it asks for a detection, and with the
  detection result \<open>"DE"\<close> the request has source DE and target RU and the recognition
  locale becomes \<open>de-DE\<close>, all while the hook stays in manual mode with role \<open>user\<close>. A
  call of \<open>performTranslation\<close> from the current render, in the same state and with the
  same text, issues the request with source RU and target DE.
\<close>

theorem stale_timer_resolves_by_detection:
  "translationMode switched = Manual \<and> currentRole switched = User \<and>
   snd stale_fire = Some (AwaitDetect hallo) \<and>
   translationMode (fst stale_fire) = Manual \<and> currentRole (fst stale_fire) = User \<and>
   language_pair (snd (detect_done hallo (DetectJson (Some DE)) (fst stale_fire))) = Some (DE, RU) \<and>
   recognitionLang (fst (detect_done hallo (DetectJson (Some DE)) (fst stale_fire))) = de_DE \<and>
   language_pair (snd (performTranslation (translationMode switched) (currentRole switched) hallo switched)) =
     Some (RU, DE) \<and>
   (DE, RU) \<noteq> (RU, DE)"
proof -
  have "language_pair (snd (detect_done hallo (DetectJson (Some DE)) (fst stale_fire))) = Some (DE, RU)"
    using detect_done_pair [OF stale_fire_token, of hallo "DetectJson (Some DE)"] RU_neq
    by (simp add: detect_DE)
  moreover have "recognitionLang (fst (detect_done hallo (DetectJson (Some DE)) (fst stale_fire))) = de_DE"
    using RU_neq
    by (simp add: detect_done_def Let_def recognitionLang_issue recognitionLang_lang_effect detect_DE)
  moreover have "language_pair (snd (performTranslation (translationMode switched) (currentRole switched) hallo switched)) =
     Some (RU, DE)"
    using performTranslation_manual_pair [OF guard_hallo, of User switched]
    by (simp add: switched_facts)
  ultimately show ?thesis
    using RU_neq by (simp add: switched_facts stale_fire_pending stale_fire_mode)
qed

end
